theory Spec2Isabelle
  imports Complex_Main "HOL-Library.Word"
begin

section \<open>Numbers\<close>

text \<open>
  The program computes with numpy's \<open>float64\<close> and \<open>int64\<close>.

  A \<open>float64\<close> is a finite number, \<open>inf\<close>, \<open>-inf\<close> or \<open>nan\<close>. The finite ones are
  idealised as real numbers: an operation whose exact result lies in the range of
  \<open>float64\<close> returns that exact result (rounding to 53 bits is not modelled, and neither
  is the sign of a zero: a zero divisor counts as \<open>+0.0\<close>). What happens outside the range
  is modelled: a result of magnitude \<open>OVERFLOW\<close> or more is \<open>inf\<close> or \<open>-inf\<close>, and a product
  or quotient of magnitude \<open>UNDERFLOW\<close> or less is zero. \<open>OVERFLOW\<close> is the largest
  \<open>float64\<close> plus half a unit in its last place, \<open>UNDERFLOW\<close> is half the smallest
  positive \<open>float64\<close>. A sum or difference of two \<open>float64\<close> is never rounded to zero.

  An \<open>int64\<close> is a 64-bit word read as a signed integer; its arithmetic wraps around.
\<close>

datatype npfloat = Finite real | PInf | NInf | NaN

definition OVERFLOW :: real where
  "OVERFLOW = 2 ^ 1024 - 2 ^ 970"

definition UNDERFLOW :: real where
  "UNDERFLOW = 1 / 2 ^ 1075"

definition round_sum :: "real \<Rightarrow> npfloat" where
  "round_sum r = (if OVERFLOW \<le> r then PInf else if r \<le> - OVERFLOW then NInf else Finite r)"

definition round_product :: "real \<Rightarrow> npfloat" where
  "round_product r = (if \<bar>r\<bar> \<le> UNDERFLOW then Finite 0 else round_sum r)"

text \<open>\<open>x < 0.0\<close>; a comparison with \<open>nan\<close> is false.\<close>

fun is_negative :: "npfloat \<Rightarrow> bool" where
  "is_negative (Finite a) = (a < 0)"
| "is_negative NInf = True"
| "is_negative PInf = False"
| "is_negative NaN = False"

definition signed_inf :: "bool \<Rightarrow> npfloat" where
  "signed_inf negative = (if negative then NInf else PInf)"

fun fneg :: "npfloat \<Rightarrow> npfloat" where
  "fneg (Finite a) = Finite (- a)"
| "fneg PInf = NInf"
| "fneg NInf = PInf"
| "fneg NaN = NaN"

fun fadd :: "npfloat \<Rightarrow> npfloat \<Rightarrow> npfloat" where
  "fadd (Finite a) (Finite b) = round_sum (a + b)"
| "fadd NaN y = NaN"
| "fadd x NaN = NaN"
| "fadd PInf NInf = NaN"
| "fadd NInf PInf = NaN"
| "fadd PInf y = PInf"
| "fadd x PInf = PInf"
| "fadd NInf y = NInf"
| "fadd x NInf = NInf"

definition fsub :: "npfloat \<Rightarrow> npfloat \<Rightarrow> npfloat" where
  "fsub x y = fadd x (fneg y)"

fun fmul :: "npfloat \<Rightarrow> npfloat \<Rightarrow> npfloat" where
  "fmul (Finite a) (Finite b) = round_product (a * b)"
| "fmul NaN y = NaN"
| "fmul x NaN = NaN"
| "fmul (Finite a) y = (if a = 0 then NaN else signed_inf ((a < 0) \<noteq> is_negative y))"
| "fmul x (Finite b) = (if b = 0 then NaN else signed_inf (is_negative x \<noteq> (b < 0)))"
| "fmul x y = signed_inf (is_negative x \<noteq> is_negative y)"

text \<open>
  Division of numpy scalars and arrays does not raise: a finite number divided by zero is
  an infinity, zero by zero is \<open>nan\<close>.
\<close>

fun fdiv :: "npfloat \<Rightarrow> npfloat \<Rightarrow> npfloat" where
  "fdiv (Finite a) (Finite b) =
     (if b = 0 then (if a = 0 then NaN else signed_inf (a < 0)) else round_product (a / b))"
| "fdiv NaN y = NaN"
| "fdiv x NaN = NaN"
| "fdiv (Finite a) y = Finite 0"
| "fdiv x (Finite b) = signed_inf (is_negative x \<noteq> (b < 0))"
| "fdiv x y = NaN"

text \<open>\<open>np.sqrt\<close>.\<close>

fun fsqrt :: "npfloat \<Rightarrow> npfloat" where
  "fsqrt (Finite a) = (if a < 0 then NaN else Finite (sqrt a))"
| "fsqrt PInf = PInf"
| "fsqrt NInf = NaN"
| "fsqrt NaN = NaN"

text \<open>
  A one-dimensional array of grid points is an \<open>int64\<close> array (what \<open>np.arange(5)\<close> of
  the tests is) or a \<open>float64\<close> array of finite numbers. \<open>value_at\<close> is the number at an
  index. \<open>difference p i j\<close> is \<open>p[i] - p[j]\<close> as it enters the floating-point
  arithmetic that follows it: the \<open>int64\<close> difference wraps around and is then converted,
  the \<open>float64\<close> difference can overflow.
\<close>

datatype ndarray = Int64 "64 word list" | Float64 "real list"

fun len :: "ndarray \<Rightarrow> nat" where
  "len (Int64 ws) = length ws"
| "len (Float64 xs) = length xs"

fun value_at :: "ndarray \<Rightarrow> nat \<Rightarrow> real" where
  "value_at (Int64 ws) i = real_of_int (sint (ws ! i))"
| "value_at (Float64 xs) i = xs ! i"

fun difference :: "ndarray \<Rightarrow> nat \<Rightarrow> nat \<Rightarrow> npfloat" where
  "difference (Int64 ws) i j = Finite (real_of_int (sint (ws ! i - ws ! j)))"
| "difference (Float64 xs) i j = fsub (Finite (xs ! i)) (Finite (xs ! j))"

text \<open>
  Exceptions of the program. \<open>ValueError\<close> and \<open>NotImplementedError\<close> carry the
  message the source gives them. \<open>UnpackError\<close> is the \<open>ValueError\<close> Python raises
  when a tuple assignment finds the wrong number of values, \<open>ShapeError\<close> the
  \<open>ValueError\<close> scipy raises for a negative matrix dimension, \<open>BroadcastError\<close> the
  \<open>ValueError\<close> numpy raises when two array shapes cannot be broadcast together.
\<close>

datatype error =
    ValueError string
  | NotImplementedError string
  | UnpackError
  | ShapeError
  | BroadcastError

section \<open>The sparse matrix under construction\<close>

text \<open>
  \<open>scipy.sparse.dok_matrix\<close>: a shape and a dictionary from index pairs to values.
  The conversions \<open>tocsc\<close> and \<open>tocsr\<close> change the storage format only. Reading
  an index that has no stored value gives zero; \<open>toarray\<close> is the dense array, row
  by row.
\<close>

record dok_matrix =
  shape :: "nat \<times> nat"
  items :: "nat \<times> nat \<rightharpoonup> npfloat"

definition dok_matrix_new :: "int \<times> int \<Rightarrow> error + dok_matrix" where
  "dok_matrix_new sh =
     (if fst sh < 0 \<or> snd sh < 0 then Inl ShapeError
      else Inr \<lparr>shape = (nat (fst sh), nat (snd sh)), items = Map.empty\<rparr>)"

definition setitem :: "dok_matrix \<Rightarrow> nat \<times> nat \<Rightarrow> npfloat \<Rightarrow> dok_matrix" where
  "setitem m key v = m\<lparr>items := (items m)(key \<mapsto> v)\<rparr>"

definition getitem :: "dok_matrix \<Rightarrow> nat \<Rightarrow> nat \<Rightarrow> npfloat" where
  "getitem m i j = (case items m (i, j) of None \<Rightarrow> Finite 0 | Some v \<Rightarrow> v)"

definition toarray :: "dok_matrix \<Rightarrow> npfloat list list" where
  "toarray m =
     map (\<lambda>i. map (\<lambda>j. getitem m i j) [0..<snd (shape m)]) [0..<fst (shape m)]"

section \<open>fem.py: the grid\<close>

record Grid =
  points :: ndarray

text \<open>
  \<open>Grid.__init__\<close>: \<open>points[1:] - points[:-1]\<close> is the array of adjacent differences,
  computed in the array's own arithmetic; the constructor raises when one of them is
  less than \<open>0.0\<close>, and stores the points otherwise.
\<close>

fun adjacent_differences :: "ndarray \<Rightarrow> npfloat list" where
  "adjacent_differences (Int64 ws) =
     map (\<lambda>d. Finite (real_of_int (sint d))) (map2 (-) (drop 1 ws) (butlast ws))"
| "adjacent_differences (Float64 xs) =
     map2 (\<lambda>a b. fsub (Finite a) (Finite b)) (drop 1 xs) (butlast xs)"

definition Grid_init :: "ndarray \<Rightarrow> error + Grid" where
  "Grid_init pts =
     (if list_ex is_negative (adjacent_differences pts)
      then Inl (ValueError ''Points must be sorted.'')
      else Inr \<lparr>points = pts\<rparr>)"

text \<open>
  The three assembly methods. Each returns its result together with the grid object as
  the call leaves it. \<open>n - 2\<close> is negative for fewer than two points, and
  \<open>dok_matrix\<close> then raises; otherwise the two loops run over \<open>range(1, n - 1)\<close> and
  \<open>range(1, n - 2)\<close>, and every index they read or write is in range.
\<close>

definition matrice_masse_interne :: "Grid \<Rightarrow> (error + dok_matrix) \<times> Grid" where
  "matrice_masse_interne self =
     (let n = len (points self) in
      case dok_matrix_new (int n - 2, int n - 2) of
        Inl e \<Rightarrow> (Inl e, self)
      | Inr matrice \<Rightarrow>
          let matrice = fold (\<lambda>site m.
                  setitem m (site - 1, site - 1)
                    (fdiv (difference (points self) (site + 1) (site - 1)) (Finite 3)))
                [1..<n - 1] matrice;
              matrice = fold (\<lambda>site m.
                  let valeur = fdiv (difference (points self) (site + 1) site) (Finite 6) in
                  setitem (setitem m (site - 1, site) valeur) (site, site - 1) valeur)
                [1..<n - 2] matrice
          in (Inr matrice, self))"

text \<open>The builtin \<open>sum\<close> of the two reciprocals starts from \<open>0\<close>.\<close>

definition matrice_laplacienne_interne :: "Grid \<Rightarrow> (error + dok_matrix) \<times> Grid" where
  "matrice_laplacienne_interne self =
     (let n = len (points self) in
      case dok_matrix_new (int n - 2, int n - 2) of
        Inl e \<Rightarrow> (Inl e, self)
      | Inr matrice \<Rightarrow>
          let matrice = fold (\<lambda>site m.
                  setitem m (site - 1, site - 1)
                    (fold (\<lambda>i acc. fadd acc (fdiv (Finite 1) (difference (points self) i (i + 1))))
                       [site - 1, site] (Finite 0)))
                [1..<n - 1] matrice;
              matrice = fold (\<lambda>site m.
                  let valeur = fdiv (Finite 1) (difference (points self) (site + 1) site) in
                  setitem (setitem m (site - 1, site) valeur) (site, site - 1) valeur)
                [1..<n - 2] matrice
          in (Inr matrice, self))"

text \<open>
  \<open>scipy.integrate.quad\<close> is a library routine, taken as a parameter: it maps an
  integrand and the two ends of an interval to the value of the integral (the first
  component of what \<open>quad\<close> returns). The potential is a function from a position to
  a \<open>float64\<close>. \<open>y**2\<close> on a \<open>float64\<close> is the product of \<open>y\<close> with itself.
\<close>

type_synonym quad = "(real \<Rightarrow> npfloat) \<Rightarrow> real \<Rightarrow> real \<Rightarrow> npfloat"

definition pente_pos :: "Grid \<Rightarrow> real \<Rightarrow> nat \<Rightarrow> npfloat" where
  "pente_pos self x site =
     (let num = fsub (Finite x) (Finite (value_at (points self) (site - 1)));
          denom = difference (points self) site (site - 1)
      in fdiv num denom)"

definition pente_neg :: "Grid \<Rightarrow> real \<Rightarrow> nat \<Rightarrow> npfloat" where
  "pente_neg self x site =
     (let num = fsub (Finite (value_at (points self) (site + 1))) (Finite x);
          denom = difference (points self) (site + 1) site
      in fdiv num denom)"

definition fsquare :: "npfloat \<Rightarrow> npfloat" where
  "fsquare y = fmul y y"

definition matrice_potentiel ::
    "quad \<Rightarrow> Grid \<Rightarrow> (real \<Rightarrow> npfloat) \<Rightarrow> (error + dok_matrix) \<times> Grid" where
  "matrice_potentiel integrate_quad self potentiel =
     (let n = len (points self) in
      case dok_matrix_new (int n - 2, int n - 2) of
        Inl e \<Rightarrow> (Inl e, self)
      | Inr matrice \<Rightarrow>
          let matrice = fold (\<lambda>site m.
                  let valeur_pos = integrate_quad
                        (\<lambda>x. fmul (potentiel x) (fsquare (pente_pos self x site)))
                        (value_at (points self) (site - 1)) (value_at (points self) site);
                      valeur_neg = integrate_quad
                        (\<lambda>x. fmul (potentiel x) (fsquare (pente_neg self x site)))
                        (value_at (points self) site) (value_at (points self) (site + 1))
                  in setitem m (site - 1, site - 1) (fadd valeur_pos valeur_neg))
                [1..<n - 1] matrice;
              matrice = fold (\<lambda>site m.
                  let valeur = integrate_quad
                        (\<lambda>x. fmul (fmul (potentiel x) (pente_pos self x (site + 1)))
                               (pente_neg self x site))
                        (value_at (points self) site) (value_at (points self) (site + 1))
                  in setitem (setitem m (site - 1, site) valeur) (site, site - 1) valeur)
                [1..<n - 2] matrice
          in (Inr matrice, self))"

text \<open>
  \<open>tools.time_it\<close>: the wrapper calls the function and returns its result; the line it
  prints (only when the function returns) is not modelled. An exception of the function
  passes through.
\<close>

definition time_it :: "('a \<Rightarrow> error + 'b) \<Rightarrow> 'a \<Rightarrow> error + 'b" where
  "time_it func args = (case func args of Inl e \<Rightarrow> Inl e | Inr result \<Rightarrow> Inr result)"

text \<open>\<open>solve_shrodinger_using_fem\<close>: the body is a single \<open>raise\<close>.\<close>

definition solve_shrodinger_using_fem ::
    "(real \<Rightarrow> real) \<Rightarrow> real list \<Rightarrow> int \<Rightarrow> error + (real list \<times> real list list)" where
  "solve_shrodinger_using_fem potential pts n_states =
     time_it (\<lambda>_. Inl (NotImplementedError ''You need to implement this function.''))
       (potential, pts, n_states)"

section \<open>tools.py\<close>

text \<open>
  Elementwise arithmetic of two one-dimensional numpy arrays: equal lengths combine
  index by index, an array of length one is stretched to the other's length, and any
  other pair of lengths raises.
\<close>

definition broadcast2 ::
    "(npfloat \<Rightarrow> npfloat \<Rightarrow> npfloat) \<Rightarrow> npfloat list \<Rightarrow> npfloat list \<Rightarrow> error + npfloat list" where
  "broadcast2 f xs ys =
     (if length xs = length ys then Inr (map2 f xs ys)
      else if length xs = 1 then Inr (map (f (hd xs)) ys)
      else if length ys = 1 then Inr (map (\<lambda>x. f x (hd ys)) xs)
      else Inl BroadcastError)"

text \<open>\<open>area.sum()\<close>: the terms are added up from zero.\<close>

definition np_sum :: "npfloat list \<Rightarrow> npfloat" where
  "np_sum terms = fold (\<lambda>t acc. fadd acc t) terms (Finite 0)"

text \<open>
  \<open>normalise\<close>, on two \<open>float64\<close> arrays of finite numbers. \<open>1/2 * (...) * dxs\<close> first
  halves the sums and then multiplies by the spacings.
\<close>

definition normalise :: "real list \<Rightarrow> real list \<Rightarrow> error + npfloat list" where
  "normalise state xs =
     (let dxs = map2 (\<lambda>a b. fsub (Finite a) (Finite b)) (drop 1 xs) (butlast xs);
          temp = map (\<lambda>s. fmul (Finite s) (Finite s)) state
      in case broadcast2 fmul
                (map (fmul (Finite (1 / 2))) (map2 fadd (butlast temp) (drop 1 temp))) dxs of
           Inl e \<Rightarrow> Inl e
         | Inr area_terms \<Rightarrow>
             let area = np_sum area_terms in
             Inr (map (\<lambda>s. fdiv (Finite s) (fsqrt area)) state))"

text \<open>\<open>scope_roots\<close>: the body is a single \<open>raise\<close>.\<close>

definition scope_roots ::
    "(real \<Rightarrow> 'args \<Rightarrow> real) \<Rightarrow> real \<Rightarrow> 'args \<Rightarrow> int \<Rightarrow> error + (real \<times> bool)" where
  "scope_roots func x0 args max_iters =
     Inl (NotImplementedError ''This function is not implemented yet.'')"

section \<open>shooting.py\<close>

text \<open>
  \<open>schrodinger\<close>: the state is unpacked into two values (which fails unless it has
  exactly two), and then the body raises.
\<close>

definition schrodinger ::
    "real list \<Rightarrow> real \<Rightarrow> (real \<Rightarrow> real) \<Rightarrow> real \<Rightarrow> error + real list" where
  "schrodinger state x potential energy =
     (case state of
        [psi, dpsi] \<Rightarrow> Inl (NotImplementedError ''This function is not implemented yet.'')
      | _ \<Rightarrow> Inl UnpackError)"

section \<open>Notions used to state the properties\<close>

text \<open>The numbers of an array, and whether a \<open>float64\<close> is a finite number.\<close>

fun numbers_of :: "ndarray \<Rightarrow> real list" where
  "numbers_of (Int64 ws) = map (\<lambda>w. real_of_int (sint w)) ws"
| "numbers_of (Float64 xs) = xs"

fun is_finite :: "npfloat \<Rightarrow> bool" where
  "is_finite (Finite a) = True"
| "is_finite PInf = False"
| "is_finite NInf = False"
| "is_finite NaN = False"

text \<open>
  \<open>in_range r\<close>: a product or quotient whose exact value is \<open>r\<close> neither overflows nor
  underflows.
\<close>

definition in_range :: "real \<Rightarrow> bool" where
  "in_range r \<longleftrightarrow> r = 0 \<or> (UNDERFLOW < \<bar>r\<bar> \<and> \<bar>r\<bar> < OVERFLOW)"

text \<open>
  \<open>differences_fit\<close>: no adjacent difference of an \<open>int64\<close> array wraps around (a
  \<open>float64\<close> difference that overflows keeps its sign).
\<close>

fun differences_fit :: "ndarray \<Rightarrow> bool" where
  "differences_fit (Int64 ws) =
     list_all (\<lambda>i. - (2 ^ 63) \<le> sint (ws ! (i + 1)) - sint (ws ! i)
                  \<and> sint (ws ! (i + 1)) - sint (ws ! i) < 2 ^ 63) [0..<length ws - 1]"
| "differences_fit (Float64 xs) = True"

text \<open>
  \<open>mass_in_range\<close>: the differences \<open>x (s + 1) - x (s - 1)\<close> that the mass matrix takes
  do not wrap around (\<open>int64\<close>) or overflow (\<open>float64\<close>), and the quotients by 3 and by
  6 do not underflow.
\<close>

fun mass_in_range :: "ndarray \<Rightarrow> bool" where
  "mass_in_range (Int64 ws) =
     list_all (\<lambda>s. sint (ws ! (s + 1)) - sint (ws ! (s - 1)) < 2 ^ 63) [1..<length ws - 1]"
| "mass_in_range (Float64 xs) =
     (list_all (\<lambda>s. xs ! (s + 1) - xs ! (s - 1) < OVERFLOW
                   \<and> UNDERFLOW < (xs ! (s + 1) - xs ! (s - 1)) / 3) [1..<length xs - 1]
      \<and> list_all (\<lambda>s. UNDERFLOW < (xs ! (s + 1) - xs ! s) / 6) [1..<length xs - 2])"

text \<open>
  \<open>gaps_in_range\<close>: every spacing of a \<open>float64\<close> grid lies between \<open>2^-1022\<close> (the
  smallest normal number) and \<open>2^1023\<close>, so that neither a reciprocal of a spacing nor
  the sum of two of them overflows or underflows.
\<close>

fun gaps_in_range :: "ndarray \<Rightarrow> bool" where
  "gaps_in_range (Int64 ws) = True"
| "gaps_in_range (Float64 xs) =
     list_all (\<lambda>i. 1 / 2 ^ 1022 \<le> xs ! (i + 1) - xs ! i \<and> xs ! (i + 1) - xs ! i \<le> 2 ^ 1023)
       [0..<length xs - 1]"

text \<open>
  The trapezoidal integral of the samples \<open>ys\<close> over the grid \<open>xs\<close>: the sum over
  \<open>k\<close> of \<open>1/2 * (ys k + ys (k + 1)) * (xs (k + 1) - xs k)\<close>.
\<close>

definition trapz :: "real list \<Rightarrow> real list \<Rightarrow> real" where
  "trapz ys xs =
     (\<Sum>k\<leftarrow>[0..<length xs - 1]. 1 / 2 * (ys ! k + ys ! (k + 1)) * (xs ! (k + 1) - xs ! k))"

text \<open>
  \<open>normalise_in_range\<close>: no intermediate result of \<open>normalise\<close> overflows or underflows:
  the squares, the sums of two squares, their halves, the spacings, the products with
  the spacings, the area, and the quotients by the square root of the area.
\<close>

definition normalise_in_range :: "real list \<Rightarrow> real list \<Rightarrow> bool" where
  "normalise_in_range state xs \<longleftrightarrow>
     list_all (\<lambda>s. in_range (s * s)) state
     \<and> list_all (\<lambda>k. \<bar>xs ! (k + 1) - xs ! k\<bar> < OVERFLOW
                    \<and> state ! k * state ! k + state ! (k + 1) * state ! (k + 1) < OVERFLOW
                    \<and> in_range (1 / 2 * (state ! k * state ! k + state ! (k + 1) * state ! (k + 1)))
                    \<and> in_range (1 / 2 * (state ! k * state ! k + state ! (k + 1) * state ! (k + 1))
                                 * (xs ! (k + 1) - xs ! k)))
         [0..<length xs - 1]
     \<and> trapz (map (\<lambda>s. s ^ 2) state) xs < OVERFLOW
     \<and> list_all (\<lambda>s. in_range (s / sqrt (trapz (map (\<lambda>s. s ^ 2) state) xs))) state"

text \<open>Polynomials of degree at most four, with a primitive.\<close>

definition poly4 :: "real \<Rightarrow> real \<Rightarrow> real \<Rightarrow> real \<Rightarrow> real \<Rightarrow> real \<Rightarrow> real" where
  "poly4 c0 c1 c2 c3 c4 x = c0 + c1 * x + c2 * x ^ 2 + c3 * x ^ 3 + c4 * x ^ 4"

definition poly4_primitive :: "real \<Rightarrow> real \<Rightarrow> real \<Rightarrow> real \<Rightarrow> real \<Rightarrow> real \<Rightarrow> real" where
  "poly4_primitive c0 c1 c2 c3 c4 x =
     c0 * x + c1 * x ^ 2 / 2 + c2 * x ^ 3 / 3 + c3 * x ^ 4 / 4 + c4 * x ^ 5 / 5"

text \<open>
  What is assumed of the quadrature routine, one call at a time. \<open>computes_on f g a b\<close>:
  on the interval the \<open>float64\<close> integrand \<open>f\<close> returns the values of the real function
  \<open>g\<close>, up to the \<open>2^-1000\<close> that underflow can take away. \<open>quad_accurate_on q \<delta> f a b g G\<close>:
  if \<open>f\<close> computes \<open>g\<close> on the interval and \<open>G\<close> is a primitive of \<open>g\<close>, then the
  routine \<open>q\<close>, called with \<open>f\<close> and the interval, returns a finite value within \<open>\<delta>\<close> of
  the integral \<open>G b - G a\<close>.
\<close>

definition computes_on :: "(real \<Rightarrow> npfloat) \<Rightarrow> (real \<Rightarrow> real) \<Rightarrow> real \<Rightarrow> real \<Rightarrow> bool" where
  "computes_on f g a b \<longleftrightarrow>
     (\<forall>x. a \<le> x \<and> x \<le> b \<longrightarrow> (\<exists>v. f x = Finite v \<and> \<bar>v - g x\<bar> \<le> 1 / 2 ^ 1000))"

definition quad_accurate_on ::
    "quad \<Rightarrow> real \<Rightarrow> (real \<Rightarrow> npfloat) \<Rightarrow> real \<Rightarrow> real \<Rightarrow> (real \<Rightarrow> real) \<Rightarrow> (real \<Rightarrow> real) \<Rightarrow> bool" where
  "quad_accurate_on q \<delta> f a b g G \<longleftrightarrow>
     (computes_on f g a b \<and> (\<forall>x. (G has_real_derivative g x) (at x))
        \<longrightarrow> (\<exists>v. q f a b = Finite v \<and> \<bar>v - (G b - G a)\<bar> \<le> \<delta>))"

text \<open>
  The comparison of \<open>numpy.testing.assert_allclose\<close> with an absolute tolerance only:
  both arrays have the same shape and every entry is finite and within \<open>atol\<close> of the
  expected one.
\<close>

fun within_tol :: "npfloat \<Rightarrow> real \<Rightarrow> real \<Rightarrow> bool" where
  "within_tol (Finite v) expected atol = (\<bar>v - expected\<bar> \<le> atol)"
| "within_tol PInf expected atol = False"
| "within_tol NInf expected atol = False"
| "within_tol NaN expected atol = False"

definition allclose :: "npfloat list list \<Rightarrow> real list list \<Rightarrow> real \<Rightarrow> bool" where
  "allclose actual desired atol =
     list_all2 (list_all2 (\<lambda>a e. within_tol a e atol)) actual desired"

text \<open>
  Boole's rule, a concrete quadrature rule with five nodes, in the arithmetic of the
  program. It is exact on polynomials of degree at most five, and serves as the instance
  showing that the assumption on the quadrature routine can be met.
\<close>

definition boole :: quad where
  "boole f a b =
     (let h = (b - a) / 4 in
      fmul (Finite ((b - a) / 90))
        (fadd (fadd (fadd (fadd (fmul (Finite 7) (f a)) (fmul (Finite 32) (f (a + h))))
                      (fmul (Finite 12) (f (a + 2 * h))))
                (fmul (Finite 32) (f (a + 3 * h))))
          (fmul (Finite 7) (f b))))"

section \<open>The methods leave the grid alone\<close>

text \<open>
  C9. Each of the three assembly methods leaves the grid object, and so its points,
  as it found it, and a second call on the grid the first call left (with the same
  quadrature routine and potential, for \<open>matrice_potentiel\<close>) returns what the first
  call returned.
\<close>

theorem assembly_leaves_grid_unchanged:
  "snd (matrice_masse_interne g) = g
   \<and> points (snd (matrice_masse_interne g)) = points g
   \<and> matrice_masse_interne (snd (matrice_masse_interne g)) = matrice_masse_interne g
   \<and> snd (matrice_laplacienne_interne g) = g
   \<and> points (snd (matrice_laplacienne_interne g)) = points g
   \<and> matrice_laplacienne_interne (snd (matrice_laplacienne_interne g))
       = matrice_laplacienne_interne g
   \<and> snd (matrice_potentiel integrate_quad g potentiel) = g
   \<and> points (snd (matrice_potentiel integrate_quad g potentiel)) = points g
   \<and> matrice_potentiel integrate_quad (snd (matrice_potentiel integrate_quad g potentiel)) potentiel
       = matrice_potentiel integrate_quad g potentiel"
proof -
  have 1: "snd (matrice_masse_interne g) = g"
    by (simp add: matrice_masse_interne_def Let_def split: sum.splits)
  have 2: "snd (matrice_laplacienne_interne g) = g"
    by (simp add: matrice_laplacienne_interne_def Let_def split: sum.splits)
  have 3: "snd (matrice_potentiel integrate_quad g potentiel) = g"
    by (simp add: matrice_potentiel_def Let_def split: sum.splits)
  show ?thesis
    by (simp only: 1 2 3 simp_thms)
qed

section \<open>Functions whose body only raises\<close>

text \<open>
  C5. \<open>schrodinger\<close> unpacks the state into \<open>psi\<close> and \<open>dpsi\<close> and then raises
  \<open>NotImplementedError\<close>, whatever the position, the potential and the energy: it does
  not return the derivative pair \<open>(dpsi, 2 * (V x - E) * psi)\<close>.
\<close>

theorem schrodinger_not_implemented:
  "schrodinger [psi, dpsi] x potential energy
     = Inl (NotImplementedError ''This function is not implemented yet.'')
   \<and> schrodinger [psi, dpsi] x potential energy
     \<noteq> Inr [dpsi, 2 * (potential x - energy) * psi]"
  by (simp add: schrodinger_def)

text \<open>
  C4. \<open>solve_shrodinger_using_fem\<close> raises \<open>NotImplementedError\<close> for every potential,
  every sequence of points and every number of states: it returns no eigenpair, and the
  error for too many requested states is the same \<open>NotImplementedError\<close>.
\<close>

theorem solve_shrodinger_using_fem_not_implemented:
  "solve_shrodinger_using_fem potential pts n_states
     = Inl (NotImplementedError ''You need to implement this function.'')"
  by (simp add: solve_shrodinger_using_fem_def time_it_def)

text \<open>
  C6. \<open>scope_roots\<close> raises \<open>NotImplementedError\<close> for every function, starting point,
  extra arguments and iteration cap: it returns neither a root nor the pair
  \<open>(x0, False)\<close>.
\<close>

theorem scope_roots_not_implemented:
  "scope_roots func x0 args max_iters
     = Inl (NotImplementedError ''This function is not implemented yet.'')
   \<and> scope_roots func x0 args max_iters \<noteq> Inr (x0, False)"
  by (simp add: scope_roots_def)

end
